theory Spec2Isabelle
  imports Complex_Main
begin

section \<open>World Bank dashboard (\<open>dashboard.py\<close>): data model\<close>

text \<open>
  The script is a module-level pipeline (load the raw table from the cache file or from
  the World Bank API, reshape it) followed by one callback, \<open>update_figures\<close>, which
  rebuilds both charts from the reshaped table and the two click payloads.
  The file holds the program twice (lines 1--100 and 203--312, with a commented-out
  copy between): the load and reshape statements are the same in both, and the two
  callbacks differ only in the order of the columns projected for the bar chart.
  Line numbers below are those of the second copy.

  Python objects that occur in the country field, in the derived code and name columns
  and in a clicked point's custom data: \<open>None\<close>, a string, or a dictionary with string
  keys.
\<close>

datatype pyobj = PyNone | PyStr string | PyDict "(string \<times> pyobj) list"

text \<open>The exceptions the modelled statements can raise.\<close>

datatype error =
    KeyError | IndexError | AttributeError | ValueError | TypeError
  | UnpicklingError | EOFError | APIError

fun bind_err :: "error + 'a \<Rightarrow> ('a \<Rightarrow> error + 'b) \<Rightarrow> error + 'b" where
  "bind_err (Inl e) f = Inl e"
| "bind_err (Inr x) f = f x"

text \<open>
  A data frame is its list of value-column names and its rows in index order; a cell of
  a value column is a float or missing (\<open>NaN\<close>), written \<open>None\<close>.
  A row of \<open>raw_df.reset_index()\<close> carries the two index levels \<open>country\<close> and
  \<open>date\<close> as fields; the reshaped table adds \<open>iso2\<close>, \<open>country_name\<close> and \<open>Year\<close>.
\<close>

record raw_row =
  country :: pyobj
  date :: string
  vals :: "real option list"

record obs_row = raw_row +
  iso2 :: pyobj
  country_name :: pyobj
  Year :: int

record 'r frame =
  columns :: "string list"
  rows :: "'r list"

type_synonym raw_frame = "raw_row frame"
type_synonym obs_frame = "obs_row frame"

subsection \<open>Module constants\<close>

definition cache_file :: string where
  "cache_file = ''wbdata_cache.pkl''"

definition start_year :: int where
  "start_year = 2000"

definition end_year :: int where
  "end_year = 2020"

text \<open>\<open>datetime.datetime(y, m, d)\<close> as a triple.\<close>

type_synonym datetime = "int \<times> int \<times> int"

definition data_date :: "datetime \<times> datetime" where
  "data_date = ((start_year, 1, 1), (end_year, 1, 1))"

definition indicators :: "(string \<times> string) list" where
  "indicators =
    [(''NY.GDP.PCAP.CD'', ''GDP per capita (current US$)''),
     (''SP.DYN.LE00.IN'', ''Life expectancy at birth (years)''),
     (''SH.H2O.SMDW.ZS'', ''Access to clean water (% pop)'')]"

section \<open>Loading: cache file or network\<close>

text \<open>
  The world the start-up code acts on: the files by path, and the log of calls made to
  \<open>wbdata.get_dataframe\<close>. A file either holds the pickle of a frame (\<open>to_pickle\<close>
  followed by \<open>read_pickle\<close> gives the frame back: the serialisation library's
  contract), or is empty, or holds other bytes that are no pickle; \<open>read_pickle\<close>
  raises on the last two. A file that holds the pickle of an object other than a frame
  is not represented.
\<close>

datatype cache_blob = Pickled raw_frame | EmptyFile | NotAPickle

record request =
  req_indicators :: "(string \<times> string) list"
  req_date :: "datetime \<times> datetime"

record world =
  files :: "string \<Rightarrow> cache_blob option"
  requests :: "request list"

fun read_pickle :: "cache_blob \<Rightarrow> error + raw_frame" where
  "read_pickle (Pickled f) = Inr f"
| "read_pickle EmptyFile = Inl EOFError"
| "read_pickle NotAPickle = Inl UnpicklingError"

text \<open>
  Lines 224--230. \<open>get_dataframe\<close> is the upstream service: what a call with a given
  request returns (a frame, or the exception it raises).
\<close>

definition load ::
  "(request \<Rightarrow> error + raw_frame) \<Rightarrow> world \<Rightarrow> (error + raw_frame) \<times> world" where
  "load get_dataframe w =
    (case files w cache_file of
       Some f \<Rightarrow> (read_pickle f, w)
     | None \<Rightarrow>
         (let rq = \<lparr>req_indicators = indicators, req_date = data_date\<rparr>;
              w1 = w\<lparr>requests := requests w @ [rq]\<rparr>
          in case get_dataframe rq of
               Inl e \<Rightarrow> (Inl e, w1)
             | Inr raw_df \<Rightarrow>
                 (Inr raw_df, w1\<lparr>files := (files w1)(cache_file \<mapsto> Pickled raw_df)\<rparr>)))"

section \<open>Reshaping\<close>

fun isinstance_dict :: "pyobj \<Rightarrow> bool" where
  "isinstance_dict (PyDict d) = True"
| "isinstance_dict _ = False"

text \<open>\<open>x.get(k)\<close>: only a dictionary has the method; a missing key gives \<open>None\<close>.\<close>

fun dict_get :: "string \<Rightarrow> pyobj \<Rightarrow> error + pyobj" where
  "dict_get k (PyDict d) = Inr (case map_of d k of Some v \<Rightarrow> v | None \<Rightarrow> PyNone)"
| "dict_get k _ = Inl AttributeError"

text \<open>
  \<open>series.apply(f)\<close>, and a list comprehension \<open>[f(x) for x in xs]\<close>: \<open>f\<close> on every
  element in order, stopping at the first exception.
\<close>

fun series_apply :: "('a \<Rightarrow> error + 'b) \<Rightarrow> 'a list \<Rightarrow> error + 'b list" where
  "series_apply f [] = Inr []"
| "series_apply f (x # xs) =
    bind_err (f x) (\<lambda>y. bind_err (series_apply f xs) (\<lambda>ys. Inr (y # ys)))"

text \<open>\<open>df.rename(columns=m)\<close>: a column named by a key of \<open>m\<close> takes the mapped name.\<close>

definition rename_column :: "(string \<times> string) list \<Rightarrow> string \<Rightarrow> string" where
  "rename_column m c = (case map_of m c of Some l \<Rightarrow> l | None \<Rightarrow> c)"

definition mk_obs :: "raw_row \<Rightarrow> pyobj \<Rightarrow> pyobj \<Rightarrow> int \<Rightarrow> obs_row" where
  "mk_obs r c n y =
    \<lparr>country = country r, date = date r, vals = vals r,
     iso2 = c, country_name = n, Year = y\<rparr>"

text \<open>
  Lines 233--244. \<open>to_datetime_year\<close> stands for \<open>pd.to_datetime(column).dt.year\<close>, a
  function of the data-frame library applied to the whole date column: the years, or
  the exception raised on a value that is not a date. Assigning a column of another
  length than the frame is an error of the library.
  \<open>df.loc[0, 'country']\<close> raises \<open>KeyError\<close> when the frame has no row labelled 0.
\<close>

definition normalise ::
  "(string list \<Rightarrow> error + int list) \<Rightarrow> raw_frame \<Rightarrow> error + obs_frame" where
  "normalise to_datetime_year raw_df =
    (let df = rows raw_df; cs = map country df in
     case df of
       [] \<Rightarrow> Inl KeyError
     | r0 # _ \<Rightarrow>
         bind_err
           (if isinstance_dict (country r0)
            then bind_err (series_apply (dict_get ''id'') cs) (\<lambda>ids.
                 bind_err (series_apply (dict_get ''value'') cs) (\<lambda>names.
                 Inr (ids, names)))
            else Inr (cs, cs))
           (\<lambda>(codes, names).
         bind_err (to_datetime_year (map date df)) (\<lambda>years.
           if length years \<noteq> length df then Inl ValueError
           else Inr \<lparr>columns = map (rename_column indicators) (columns raw_df),
                     rows = map (\<lambda>(r, c, n, y). mk_obs r c n y)
                              (zip df (zip codes (zip names years)))\<rparr>)))"

text \<open>
  Start-up as the second copy of the program has it (lines 224--247): load, then
  reshape whatever was loaded. Its print (line 247) reads only the \<open>Year\<close> column,
  which reshaping has just made.
\<close>

definition startup ::
  "(string list \<Rightarrow> error + int list) \<Rightarrow> (request \<Rightarrow> error + raw_frame) \<Rightarrow> world
    \<Rightarrow> (error + obs_frame) \<times> world" where
  "startup to_datetime_year get_dataframe w =
    (case load get_dataframe w of
       (Inl e, w') \<Rightarrow> (Inl e, w')
     | (Inr raw_df, w') \<Rightarrow> (normalise to_datetime_year raw_df, w'))"



section \<open>The callback \<open>update_figures\<close>\<close>

text \<open>
  A click payload is \<open>None\<close> (no click yet; falsy) or the dictionary
  \<open>{'points': [...]}\<close> the chart component sends, which is truthy also when the list
  is empty. Of a clicked point only the key \<open>customdata\<close> is read; \<open>None\<close> stands for
  a point dictionary without that key.
\<close>

record point =
  customdata :: "pyobj list option"

type_synonym click_data = "point list option"

text \<open>\<open>pt['customdata'][0]\<close>.\<close>

definition point_code :: "point \<Rightarrow> error + pyobj" where
  "point_code pt =
    (case customdata pt of
       None \<Rightarrow> Inl KeyError
     | Some [] \<Rightarrow> Inl IndexError
     | Some (c # _) \<Rightarrow> Inr c)"

text \<open>Lines 269--273.\<close>

definition extract_selected :: "click_data \<Rightarrow> click_data \<Rightarrow> error + pyobj list" where
  "extract_selected click_scatter click_bar =
    (case click_scatter of
       Some pts \<Rightarrow> series_apply point_code pts
     | None \<Rightarrow>
         (case click_bar of
            Some pts \<Rightarrow> series_apply point_code pts
          | None \<Rightarrow> Inr []))"

text \<open>\<open>series.isin(values)\<close>: for each cell, whether it is one of the values.\<close>

definition isin :: "'a list \<Rightarrow> 'a list \<Rightarrow> bool list" where
  "isin col values = map (\<lambda>c. c \<in> set values) col"

text \<open>\<open>df[mask]\<close>: the rows whose mask entry is true, in order.\<close>

definition mask_rows :: "'r frame \<Rightarrow> bool list \<Rightarrow> 'r frame" where
  "mask_rows df keep = df\<lparr>rows := map fst (filter snd (zip (rows df) keep))\<rparr>"

text \<open>Lines 274--275.\<close>

definition filter_selected :: "pyobj list \<Rightarrow> obs_frame \<Rightarrow> obs_frame" where
  "filter_selected selected dff =
    (if selected \<noteq> [] then mask_rows dff (isin (map iso2 (rows dff)) selected) else dff)"

subsection \<open>Columns by label\<close>

text \<open>
  A value column is addressed by its label. A label that no column carries is a
  \<open>KeyError\<close>; a label carried by several columns cannot be sorted by
  (\<open>ValueError\<close>). A row shorter than the column list has missing cells.
\<close>

definition locate :: "string list \<Rightarrow> string \<Rightarrow> error + nat" where
  "locate cols label =
    (case filter (\<lambda>i. cols ! i = label) [0..<length cols] of
       [] \<Rightarrow> Inl KeyError
     | [i] \<Rightarrow> Inr i
     | _ \<Rightarrow> Inl ValueError)"

definition cell :: "nat \<Rightarrow> obs_row \<Rightarrow> real option" where
  "cell i r = (if i < length (vals r) then vals r ! i else None)"

definition gdp_label :: string where
  "gdp_label = ''GDP per capita (current US$)''"

definition life_label :: string where
  "life_label = ''Life expectancy at birth (years)''"

definition water_label :: string where
  "water_label = ''Access to clean water (% pop)''"

subsection \<open>Chart 1: scatter\<close>

text \<open>
  A figure is modelled by the data the plotting library plots, row by row, and the
  fixed settings of the call. The plotting library rejects a frame that lacks a
  column it is asked to plot (\<open>ValueError\<close>). For the scatter chart it groups the
  rows by colour: a dictionary among the grouping values is unhashable
  (\<open>TypeError\<close>), and rows whose colour value is missing belong to no group and are
  not plotted.
\<close>

record scatter_point =
  sp_x :: "real option"
  sp_y :: "real option"
  sp_animation_frame :: int
  sp_animation_group :: pyobj
  sp_color :: pyobj
  sp_custom_data :: "pyobj list"

record scatter_figure =
  sc_data :: "scatter_point list"
  sc_title :: string
  sc_labels :: "(string \<times> string) list"
  sc_clickmode :: string

definition px_column :: "string list \<Rightarrow> string \<Rightarrow> error + nat" where
  "px_column cols label =
    (case locate cols label of Inl e \<Rightarrow> Inl ValueError | Inr i \<Rightarrow> Inr i)"

text \<open>Lines 278--292.\<close>

definition px_scatter :: "obs_frame \<Rightarrow> error + scatter_figure" where
  "px_scatter dff =
    bind_err (px_column (columns dff) gdp_label) (\<lambda>ix.
    bind_err (px_column (columns dff) life_label) (\<lambda>iy.
    if list_ex (\<lambda>r. isinstance_dict (iso2 r) \<or> isinstance_dict (country_name r)) (rows dff)
    then Inl TypeError
    else
    Inr \<lparr>sc_data =
            map (\<lambda>r. \<lparr>sp_x = cell ix r, sp_y = cell iy r,
                      sp_animation_frame = Year r, sp_animation_group = iso2 r,
                      sp_color = country_name r,
                      sp_custom_data = [iso2 r, country_name r]\<rparr>)
              (filter (\<lambda>r. country_name r \<noteq> PyNone) (rows dff)),
          sc_title = ''GDP per Capita vs Life Expectancy (2000-2020)'',
          sc_labels = [(gdp_label, ''GDP per Capita (US$)''),
                       (life_label, ''Life Expectancy (years)'')],
          sc_clickmode = ''event+select''\<rparr>))"

subsection \<open>Chart 2: bar\<close>

record water_row =
  w_country_name :: pyobj
  w_water :: "real option"
  w_iso2 :: pyobj

text \<open>
  \<open>sort_values(label, ascending=False)\<close>: the rows that have a value, by non-increasing
  value, then the rows whose value is missing (the library's default
  \<open>na_position='last'\<close>), these in row order. The order among rows of equal value is
  left to the library's default sort kind, which the call does not choose; the model
  keeps such rows in row order, and no statement below rests on that choice.
\<close>

definition sort_values_desc :: "('a \<Rightarrow> real option) \<Rightarrow> 'a list \<Rightarrow> 'a list" where
  "sort_values_desc key xs =
    rev (sort_key (\<lambda>r. the (key r)) (rev (filter (\<lambda>r. key r \<noteq> None) xs)))
    @ filter (\<lambda>r. key r = None) xs"

text \<open>\<open>head(n)\<close>.\<close>

definition head :: "nat \<Rightarrow> 'a list \<Rightarrow> 'a list" where
  "head n xs = take n xs"

text \<open>Lines 295--297: the frame handed to the bar chart.\<close>

definition water_df :: "obs_frame \<Rightarrow> error + water_row list" where
  "water_df dff =
    bind_err (locate (columns dff) water_label) (\<lambda>iw.
      let latest = filter (\<lambda>r. Year r = end_year) (rows dff);
          projected = map (\<lambda>r. \<lparr>w_country_name = country_name r, w_water = cell iw r,
                                 w_iso2 = iso2 r\<rparr>) latest
      in Inr (head 15 (sort_values_desc w_water projected)))"

record bar_point =
  bp_x :: pyobj
  bp_y :: "real option"
  bp_custom_data :: "pyobj list"

record bar_figure =
  bar_data :: "bar_point list"
  bar_title :: string
  bar_labels :: "(string \<times> string) list"
  bar_xaxis_tickangle :: int
  bar_clickmode :: string

text \<open>Lines 298--306.\<close>

definition px_bar :: "water_row list \<Rightarrow> bar_figure" where
  "px_bar wdf =
    \<lparr>bar_data = map (\<lambda>r. \<lparr>bp_x = w_country_name r, bp_y = w_water r,
                             bp_custom_data = [w_iso2 r, w_country_name r]\<rparr>) wdf,
     bar_title = ''Top 15 Countries by Clean Water Access (2020)'',
     bar_labels = [(water_label, ''Clean Water Access (%)'')],
     bar_xaxis_tickangle = - 45,
     bar_clickmode = ''event+select''\<rparr>"

text \<open>The two charts of a (possibly filtered) table: lines 277--308.\<close>

definition render :: "obs_frame \<Rightarrow> error + scatter_figure \<times> bar_figure" where
  "render dff =
    bind_err (px_scatter dff) (\<lambda>fig1.
    bind_err (water_df dff) (\<lambda>wdf.
    Inr (fig1, px_bar wdf)))"

text \<open>Lines 267--308; \<open>df\<close> is the module's observation table.\<close>

definition update_figures ::
  "obs_frame \<Rightarrow> click_data \<Rightarrow> click_data \<Rightarrow> error + scatter_figure \<times> bar_figure" where
  "update_figures df click_scatter click_bar =
    bind_err (extract_selected click_scatter click_bar) (\<lambda>selected.
    render (filter_selected selected df))"

section \<open>Notions used to state the properties\<close>

text \<open>
  Non-increasing order on cells with the missing ones last: the order
  \<open>sort_values(ascending=False)\<close> establishes.
\<close>

fun desc_na_last :: "real option \<Rightarrow> real option \<Rightarrow> bool" where
  "desc_na_last (Some a) (Some b) = (b \<le> a)"
| "desc_na_last None (Some b) = False"
| "desc_na_last a None = True"

text \<open>
  The specification's count for the bar chart: the number of countries that have a
  clean-water value in \<open>end_year\<close>. It follows the specification's words, to be
  compared with \<open>water_df\<close>.
\<close>

definition spec_countries_with_water :: "obs_frame \<Rightarrow> nat" where
  "spec_countries_with_water dff =
    (case locate (columns dff) water_label of
       Inl e \<Rightarrow> 0
     | Inr iw \<Rightarrow>
         length (remdups (map iso2
           (filter (\<lambda>r. Year r = end_year \<and> cell iw r \<noteq> None) (rows dff)))))"




section \<open>Example data\<close>

text \<open>
  An instance of the date parser for the examples: the upstream's annual dates are
  four-digit year strings, which the library parses to that year.
\<close>

definition digit_value :: "char \<Rightarrow> int option" where
  "digit_value c =
    map_of [(CHR ''0'', 0), (CHR ''1'', 1), (CHR ''2'', 2), (CHR ''3'', 3), (CHR ''4'', 4),
            (CHR ''5'', 5), (CHR ''6'', 6), (CHR ''7'', 7), (CHR ''8'', 8), (CHR ''9'', 9)] c"

fun year_of_string :: "string \<Rightarrow> error + int" where
  "year_of_string [a, b, c, d] =
    (case (digit_value a, digit_value b, digit_value c, digit_value d) of
       (Some x, Some y, Some z, Some u) \<Rightarrow> Inr (1000 * x + 100 * y + 10 * z + u)
     | _ \<Rightarrow> Inl ValueError)"
| "year_of_string s = Inl ValueError"

definition years_of_strings :: "string list \<Rightarrow> error + int list" where
  "years_of_strings ds = series_apply year_of_string ds"

text \<open>A raw table with flat country names; Kenya has no clean-water value in 2020.\<close>

definition example_raw :: raw_frame where
  "example_raw =
    \<lparr>columns = [''NY.GDP.PCAP.CD'', ''SP.DYN.LE00.IN'', ''SH.H2O.SMDW.ZS''],
     rows =
      [\<lparr>country = PyStr ''Kenya'', date = ''2020'', vals = [Some 1900, Some 62, None]\<rparr>,
       \<lparr>country = PyStr ''Norway'', date = ''2020'', vals = [Some 67000, Some 83, Some 99]\<rparr>,
       \<lparr>country = PyStr ''Norway'', date = ''2000'', vals = [Some 38000, Some 79, Some 98]\<rparr>]\<rparr>"

definition example_df :: obs_frame where
  "example_df =
    \<lparr>columns = [gdp_label, life_label, water_label],
     rows =
      [\<lparr>country = PyStr ''Kenya'', date = ''2020'', vals = [Some 1900, Some 62, None],
        iso2 = PyStr ''Kenya'', country_name = PyStr ''Kenya'', Year = 2020\<rparr>,
       \<lparr>country = PyStr ''Norway'', date = ''2020'', vals = [Some 67000, Some 83, Some 99],
        iso2 = PyStr ''Norway'', country_name = PyStr ''Norway'', Year = 2020\<rparr>,
       \<lparr>country = PyStr ''Norway'', date = ''2000'', vals = [Some 38000, Some 79, Some 98],
        iso2 = PyStr ''Norway'', country_name = PyStr ''Norway'', Year = 2000\<rparr>]\<rparr>"

text \<open>A raw table whose country field is the structured pair of code and name.\<close>

definition structured_raw :: raw_frame where
  "structured_raw =
    \<lparr>columns = [''SH.H2O.SMDW.ZS''],
     rows =
      [\<lparr>country = PyDict [(''id'', PyStr ''KE''), (''value'', PyStr ''Kenya'')],
        date = ''2020'', vals = [Some 59]\<rparr>,
       \<lparr>country = PyDict [(''id'', PyStr ''NO''), (''value'', PyStr ''Norway'')],
        date = ''2020'', vals = [Some 99]\<rparr>]\<rparr>"


text \<open>An upstream that answers every request with \<open>example_raw\<close>, and one that is down.\<close>

definition example_upstream :: "request \<Rightarrow> error + raw_frame" where
  "example_upstream rq = Inr example_raw"

definition upstream_down :: "request \<Rightarrow> error + raw_frame" where
  "upstream_down rq = Inl APIError"

definition cold_world :: world where
  "cold_world = \<lparr>files = Map.empty, requests = []\<rparr>"



section \<open>Auxiliary facts\<close>

lemma bind_err_Inr_iff:
  "bind_err m f = Inr y \<longleftrightarrow> (\<exists>x. m = Inr x \<and> f x = Inr y)"
  by (cases m) auto

lemma series_apply_Inr:
  "series_apply f xs = Inr ys \<Longrightarrow>
    length ys = length xs \<and> (\<forall>i<length xs. f (xs ! i) = Inr (ys ! i))"
proof (induction xs arbitrary: ys)
  case Nil
  then show ?case by simp
next
  case (Cons x xs)
  from Cons.prems obtain y ys' where
    fx: "f x = Inr y" and rest: "series_apply f xs = Inr ys'" and ys: "ys = y # ys'"
    by (auto simp add: bind_err_Inr_iff)
  from Cons.IH [OF rest] fx ys show ?case
    by (auto simp add: nth_Cons split: nat.splits)
qed

lemma series_apply_total:
  "(\<And>x. x \<in> set xs \<Longrightarrow> \<exists>y. f x = Inr y) \<Longrightarrow> \<exists>ys. series_apply f xs = Inr ys"
proof (induction xs)
  case Nil
  then show ?case by simp
next
  case (Cons x xs)
  then obtain y where "f x = Inr y" by auto
  moreover from Cons obtain ys where "series_apply f xs = Inr ys" by auto
  ultimately show ?case by simp
qed

lemma dict_get_total: "isinstance_dict c \<Longrightarrow> \<exists>v. dict_get k c = Inr v"
  by (cases c) auto

text \<open>What a successful reshape returns, and when a reshape succeeds.\<close>

lemma normalise_Inr_iff:
  "normalise to_datetime_year raw_df = Inr df \<longleftrightarrow>
    (\<exists>r0 rest codes names years.
        rows raw_df = r0 # rest
      \<and> (if isinstance_dict (country r0)
         then series_apply (dict_get ''id'') (map country (rows raw_df)) = Inr codes
            \<and> series_apply (dict_get ''value'') (map country (rows raw_df)) = Inr names
         else codes = map country (rows raw_df) \<and> names = map country (rows raw_df))
      \<and> to_datetime_year (map date (rows raw_df)) = Inr years
      \<and> length years = length (rows raw_df)
      \<and> df = \<lparr>columns = map (rename_column indicators) (columns raw_df),
               rows = map (\<lambda>(r, c, n, y). mk_obs r c n y)
                        (zip (rows raw_df) (zip codes (zip names years)))\<rparr>)"
  by (cases "rows raw_df")
     (auto simp add: normalise_def Let_def bind_err_Inr_iff split: if_splits)

lemma example_normalised: "normalise years_of_strings example_raw = Inr example_df"
  by (simp add: normalise_def example_raw_def example_df_def years_of_strings_def
      digit_value_def indicators_def rename_column_def mk_obs_def gdp_label_def
      life_label_def water_label_def)



lemma structured_years:
  "years_of_strings (map date (rows structured_raw)) = Inr [2020, 2020]"
  by (simp add: structured_raw_def years_of_strings_def digit_value_def)

lemma example_locate:
  "locate (columns example_df) gdp_label = Inr 0"
  "locate (columns example_df) life_label = Inr 1"
  "locate (columns example_df) water_label = Inr 2"
  by (simp_all add: locate_def example_df_def gdp_label_def life_label_def water_label_def
      upt_rec numeral_2_eq_2 numeral_3_eq_3)

lemma mask_isin:
  "map fst (filter snd (zip xs (isin (map f xs) S))) = filter (\<lambda>r. f r \<in> set S) xs"
  by (induction xs) (simp_all add: isin_def)

lemma length_sort_values_desc: "length (sort_values_desc key xs) = length xs"
proof -
  have "length (filter (\<lambda>r. key r \<noteq> None) xs) + length (filter (\<lambda>r. key r = None) xs)
      = length xs"
    using sum_length_filter_compl [of "\<lambda>r. key r \<noteq> None" xs] by simp
  then show ?thesis by (simp add: sort_values_desc_def)
qed

lemma sorted_wrt_desc_present:
  assumes "sorted (map (\<lambda>r. the (key r)) ys)" and "\<forall>r \<in> set ys. key r \<noteq> None"
  shows "sorted_wrt desc_na_last (map key (rev ys))"
  using assms
proof (induction ys)
  case Nil
  then show ?case by simp
next
  case (Cons y ys)
  have "desc_na_last (key r) (key y)" if "r \<in> set ys" for r
  proof -
    from Cons.prems that obtain a b where "key y = Some a" "key r = Some b" by auto
    moreover from Cons.prems that have "the (key y) \<le> the (key r)" by auto
    ultimately show ?thesis by simp
  qed
  with Cons show ?case
    by (simp add: sorted_wrt_append)
qed

lemma sorted_sort_values_desc: "sorted_wrt desc_na_last (map key (sort_values_desc key xs))"
proof -
  let ?ys = "sort_key (\<lambda>r. the (key r)) (rev (filter (\<lambda>r. key r \<noteq> None) xs))"
  have "sorted_wrt desc_na_last (map key (rev ?ys))"
    by (rule sorted_wrt_desc_present) simp_all
  moreover have "sorted_wrt desc_na_last (map key (filter (\<lambda>r. key r = None) xs))"
    by (induction xs) auto
  ultimately show ?thesis
    by (auto simp add: sort_values_desc_def sorted_wrt_append)
qed

lemma present_sort_values_desc:
  "filter (\<lambda>r. key r \<noteq> None) (take n (sort_values_desc key xs)) =
     take n (rev (sort_key (\<lambda>r. the (key r)) (rev (filter (\<lambda>r. key r \<noteq> None) xs))))"
proof -
  let ?A = "rev (sort_key (\<lambda>r. the (key r)) (rev (filter (\<lambda>r. key r \<noteq> None) xs)))"
  let ?B = "filter (\<lambda>r. key r = None) xs"
  have A: "filter (\<lambda>r. key r \<noteq> None) (take n ?A) = take n ?A"
    by (rule filter_True) (auto dest!: in_set_takeD)
  have B: "filter (\<lambda>r. key r \<noteq> None) (take m ?B) = []" for m
    by (rule filter_False) (auto dest!: in_set_takeD)
  show ?thesis
    unfolding sort_values_desc_def take_append filter_append A B by simp
qed

section \<open>Start-up properties\<close>

text \<open>
  C1. Cache miss and cache hit agree. Starting with no cache file, when the upstream
  answers the request with a table, start-up reshapes exactly that table; a second
  start-up in the world the first one left behind (the cache file now exists) reshapes
  the same table again, whatever the upstream would answer by then. Both results are
  the reshaping of the upstream table, also when that reshaping raises.
\<close>

theorem cold_warm_equivalent:
  assumes "files w cache_file = None"
      and "get_dataframe \<lparr>req_indicators = indicators, req_date = data_date\<rparr> = Inr upstream"
  shows "fst (startup to_datetime_year get_dataframe w) = normalise to_datetime_year upstream
       \<and> fst (startup to_datetime_year get_dataframe'
                (snd (startup to_datetime_year get_dataframe w)))
           = normalise to_datetime_year upstream"
  using assms by (simp add: startup_def load_def Let_def)

theorem cold_warm_equivalent_witness:
  "files cold_world cache_file = None
 \<and> example_upstream \<lparr>req_indicators = indicators, req_date = data_date\<rparr> = Inr example_raw
 \<and> fst (startup years_of_strings example_upstream cold_world) = Inr example_df
 \<and> fst (startup years_of_strings upstream_down
           (snd (startup years_of_strings example_upstream cold_world))) = Inr example_df"
proof -
  have h1: "files cold_world cache_file = None"
    by (simp add: cold_world_def)
  have h2: "example_upstream \<lparr>req_indicators = indicators, req_date = data_date\<rparr>
      = Inr example_raw"
    by (simp add: example_upstream_def)
  from cold_warm_equivalent
    [where w = cold_world and get_dataframe = example_upstream and upstream = example_raw
       and to_datetime_year = years_of_strings and get_dataframe' = upstream_down,
     OF h1 h2] h1 h2
  show ?thesis by (simp add: example_normalised)
qed



text \<open>
  C3. Reshaping branches once, on the type of the first row's country field, for the
  whole table. For a raw table with at least one row whose dates the library parses
  (one year per row), and whose country fields are all dictionaries when the first one
  is, reshaping returns a table with one row per raw row in which: if the first country
  field is a dictionary, every row's \<open>iso2\<close> is its country's \<open>id\<close> and every row's
  \<open>country_name\<close> its \<open>value\<close>; otherwise every row's \<open>iso2\<close> and \<open>country_name\<close>
  both are its country field; \<open>Year\<close> is the parsed year; the other fields are kept;
  and each value column named by an indicator code carries that indicator's label.
\<close>

theorem normalise_shape:
  assumes nonempty: "rows raw_df = r0 # rest"
      and years: "to_datetime_year (map date (rows raw_df)) = Inr years"
      and len: "length years = length (rows raw_df)"
      and homog: "isinstance_dict (country r0) \<longrightarrow>
                    list_all isinstance_dict (map country (rows raw_df))"
  shows "\<exists>df. normalise to_datetime_year raw_df = Inr df
      \<and> columns df = map (rename_column indicators) (columns raw_df)
      \<and> rename_column indicators ''NY.GDP.PCAP.CD'' = gdp_label
      \<and> rename_column indicators ''SP.DYN.LE00.IN'' = life_label
      \<and> rename_column indicators ''SH.H2O.SMDW.ZS'' = water_label
      \<and> length (rows df) = length (rows raw_df)
      \<and> map Year (rows df) = years
      \<and> (\<forall>i<length (rows raw_df).
            (if isinstance_dict (country r0)
             then dict_get ''id'' (country (rows raw_df ! i)) = Inr (iso2 (rows df ! i))
                \<and> dict_get ''value'' (country (rows raw_df ! i))
                    = Inr (country_name (rows df ! i))
             else iso2 (rows df ! i) = country (rows raw_df ! i)
                \<and> country_name (rows df ! i) = country (rows raw_df ! i))
          \<and> country (rows df ! i) = country (rows raw_df ! i)
          \<and> date (rows df ! i) = date (rows raw_df ! i)
          \<and> vals (rows df ! i) = vals (rows raw_df ! i))"
proof -
  let ?cs = "map country (rows raw_df)"
  have ren: "rename_column indicators ''NY.GDP.PCAP.CD'' = gdp_label
      \<and> rename_column indicators ''SP.DYN.LE00.IN'' = life_label
      \<and> rename_column indicators ''SH.H2O.SMDW.ZS'' = water_label"
    by (simp add: rename_column_def indicators_def gdp_label_def life_label_def
        water_label_def)
  obtain codes names where cn:
    "if isinstance_dict (country r0)
     then series_apply (dict_get ''id'') ?cs = Inr codes
        \<and> series_apply (dict_get ''value'') ?cs = Inr names
     else codes = ?cs \<and> names = ?cs"
  proof (cases "isinstance_dict (country r0)")
    case True
    with homog have all: "\<And>c. c \<in> set ?cs \<Longrightarrow> isinstance_dict c"
      by (auto simp add: list_all_iff)
    obtain ids where "series_apply (dict_get ''id'') ?cs = Inr ids"
      using series_apply_total [of ?cs "dict_get ''id''"] all dict_get_total by blast
    moreover obtain ns where "series_apply (dict_get ''value'') ?cs = Inr ns"
      using series_apply_total [of ?cs "dict_get ''value''"] all dict_get_total by blast
    ultimately show ?thesis using that True by simp
  next
    case False
    then show ?thesis using that by simp
  qed
  define df where "df = \<lparr>columns = map (rename_column indicators) (columns raw_df),
              rows = map (\<lambda>(r, c, n, y). mk_obs r c n y)
                       (zip (rows raw_df) (zip codes (zip names years)))\<rparr>"
  have eq: "normalise to_datetime_year raw_df = Inr df"
    unfolding normalise_Inr_iff df_def using nonempty cn years len by blast
  have lens: "length codes = length (rows raw_df) \<and> length names = length (rows raw_df)"
    using cn series_apply_Inr [of "dict_get ''id''" ?cs codes]
      series_apply_Inr [of "dict_get ''value''" ?cs names]
    by (simp split: if_splits)
  have cols: "columns df = map (rename_column indicators) (columns raw_df)"
    by (simp add: df_def)
  have lendf: "length (rows df) = length (rows raw_df)"
    using lens len by (simp add: df_def)
  have yrs: "map Year (rows df) = years"
    using lens len by (simp add: df_def list_eq_iff_nth_eq mk_obs_def)
  have cells: "\<forall>i<length (rows raw_df).
            (if isinstance_dict (country r0)
             then dict_get ''id'' (country (rows raw_df ! i)) = Inr (iso2 (rows df ! i))
                \<and> dict_get ''value'' (country (rows raw_df ! i))
                    = Inr (country_name (rows df ! i))
             else iso2 (rows df ! i) = country (rows raw_df ! i)
                \<and> country_name (rows df ! i) = country (rows raw_df ! i))
          \<and> country (rows df ! i) = country (rows raw_df ! i)
          \<and> date (rows df ! i) = date (rows raw_df ! i)
          \<and> vals (rows df ! i) = vals (rows raw_df ! i)"
    using cn lens len series_apply_Inr [of "dict_get ''id''" ?cs codes]
      series_apply_Inr [of "dict_get ''value''" ?cs names]
    by (simp add: df_def mk_obs_def split: if_splits)
  from eq cols ren lendf yrs cells show ?thesis
    by blast
qed

theorem normalise_shape_witness:
  "rows structured_raw = hd (rows structured_raw) # tl (rows structured_raw)
 \<and> years_of_strings (map date (rows structured_raw)) = Inr [2020, 2020]
 \<and> length [2020, 2020 :: int] = length (rows structured_raw)
 \<and> isinstance_dict (country (hd (rows structured_raw)))
 \<and> list_all isinstance_dict (map country (rows structured_raw))
 \<and> (\<exists>df. normalise years_of_strings structured_raw = Inr df
        \<and> columns df = [water_label]
        \<and> map Year (rows df) = [2020, 2020]
        \<and> iso2 (rows df ! 0) = PyStr ''KE''
        \<and> country_name (rows df ! 0) = PyStr ''Kenya''
        \<and> iso2 (rows df ! 1) = PyStr ''NO''
        \<and> country_name (rows df ! 1) = PyStr ''Norway'')"
proof -
  have h1: "rows structured_raw = hd (rows structured_raw) # tl (rows structured_raw)"
    by (simp add: structured_raw_def)
  have h3: "length [2020, 2020 :: int] = length (rows structured_raw)"
    by (simp add: structured_raw_def)
  have h4: "isinstance_dict (country (hd (rows structured_raw)))"
    by (simp add: structured_raw_def)
  have h5: "list_all isinstance_dict (map country (rows structured_raw))"
    by (simp add: structured_raw_def)
  from h5 have h45: "isinstance_dict (country (hd (rows structured_raw))) \<longrightarrow>
      list_all isinstance_dict (map country (rows structured_raw))"
    by simp
  from normalise_shape
    [where raw_df = structured_raw and to_datetime_year = years_of_strings,
     OF h1 structured_years h3 h45]
  obtain df where
    eq: "normalise years_of_strings structured_raw = Inr df" and
    cols: "columns df = map (rename_column indicators) (columns structured_raw)" and
    water: "rename_column indicators ''SH.H2O.SMDW.ZS'' = water_label" and
    yrs: "map Year (rows df) = [2020, 2020]" and
    cells: "\<forall>i<length (rows structured_raw).
            (if isinstance_dict (country (hd (rows structured_raw)))
             then dict_get ''id'' (country (rows structured_raw ! i)) = Inr (iso2 (rows df ! i))
                \<and> dict_get ''value'' (country (rows structured_raw ! i))
                    = Inr (country_name (rows df ! i))
             else iso2 (rows df ! i) = country (rows structured_raw ! i)
                \<and> country_name (rows df ! i) = country (rows structured_raw ! i))
          \<and> country (rows df ! i) = country (rows structured_raw ! i)
          \<and> date (rows df ! i) = date (rows structured_raw ! i)
          \<and> vals (rows df ! i) = vals (rows structured_raw ! i)"
    by (elim exE conjE) (rule that, assumption+)
  from cols water have cols': "columns df = [water_label]"
    by (simp add: structured_raw_def)
  from cells h4 have r0: "iso2 (rows df ! 0) = PyStr ''KE''"
    and n0: "country_name (rows df ! 0) = PyStr ''Kenya''"
    by (auto simp add: structured_raw_def)
  from cells h4 have r1: "iso2 (rows df ! 1) = PyStr ''NO''"
    and n1: "country_name (rows df ! 1) = PyStr ''Norway''"
    by (auto simp add: structured_raw_def)
  from h1 structured_years h3 h4 h5 eq cols' yrs r0 n0 r1 n1 show ?thesis
    by (intro conjI exI [of _ df])
qed



text \<open>
  C10. When the loaded raw table has no rows, reshaping raises (the probe of row 0's
  country field finds no row 0) instead of returning an empty observation table,
  whatever the date parser does.
\<close>

theorem normalise_empty_fails:
  "normalise to_datetime_year \<lparr>columns = cols, rows = []\<rparr> = Inl KeyError"
  by (simp add: normalise_def)

section \<open>Properties of the callback\<close>

text \<open>
  C4. Filtering by a non-empty selection keeps exactly the rows whose country code is
  in the selection, in their order, and changes nothing else; so every row of the
  result has its code in the selection. A selection that contains every country code
  of the table leaves the table as it is.
\<close>

theorem filter_selected_rows:
  "(selected \<noteq> [] \<longrightarrow>
      rows (filter_selected selected dff) = filter (\<lambda>r. iso2 r \<in> set selected) (rows dff)
    \<and> columns (filter_selected selected dff) = columns dff
    \<and> (\<forall>r \<in> set (rows (filter_selected selected dff)). iso2 r \<in> set selected))
 \<and> (set (map iso2 (rows dff)) \<subseteq> set selected \<longrightarrow> filter_selected selected dff = dff)"
proof -
  have "filter (\<lambda>r. iso2 r \<in> set selected) (rows dff) = rows dff"
    if "set (map iso2 (rows dff)) \<subseteq> set selected"
    using that by (auto simp add: filter_id_conv)
  then show ?thesis
    by (auto simp add: filter_selected_def mask_rows_def mask_isin)
qed

theorem filter_selected_rows_witness:
  "[PyStr ''Norway''] \<noteq> []
 \<and> rows (filter_selected [PyStr ''Norway''] example_df) = tl (rows example_df)
 \<and> set (map iso2 (rows example_df)) \<subseteq> set [PyStr ''Norway'', PyStr ''Kenya'']
 \<and> filter_selected [PyStr ''Norway'', PyStr ''Kenya''] example_df = example_df"
proof -
  have h1: "[PyStr ''Norway''] \<noteq> []"
    by simp
  have h2: "set (map iso2 (rows example_df)) \<subseteq> set [PyStr ''Norway'', PyStr ''Kenya'']"
    by (simp add: example_df_def)
  from filter_selected_rows [of "[PyStr ''Norway'']" example_df] h1
  have "rows (filter_selected [PyStr ''Norway''] example_df)
      = filter (\<lambda>r. iso2 r \<in> set [PyStr ''Norway'']) (rows example_df)"
    by blast
  then have a: "rows (filter_selected [PyStr ''Norway''] example_df) = tl (rows example_df)"
    by (simp add: example_df_def)
  from filter_selected_rows [of "[PyStr ''Norway'', PyStr ''Kenya'']" example_df] h2
  have b: "filter_selected [PyStr ''Norway'', PyStr ''Kenya''] example_df = example_df"
    by blast
  from h1 a h2 b show ?thesis
    by (intro conjI)
qed

text \<open>
  C5. One payload is the trigger of an update cycle. When the scatter chart's payload
  is present, the callback renders the table filtered by the codes of that payload's
  points (or raises what reading them raises), whatever the bar chart's payload is;
  the bar chart's payload is read, in the same way, only when the scatter chart's is
  absent; with both absent the callback renders the full table.
\<close>

theorem scatter_click_priority:
  "update_figures df (Some pts) click_bar =
     bind_err (series_apply point_code pts) (\<lambda>selected. render (filter_selected selected df))
 \<and> update_figures df (Some pts) click_bar = update_figures df (Some pts) None
 \<and> update_figures df None (Some pts) =
     bind_err (series_apply point_code pts) (\<lambda>selected. render (filter_selected selected df))
 \<and> update_figures df None None = render df"
  by (simp add: extract_selected_def update_figures_def filter_selected_def)

text \<open>
  On the example table: with a scatter click on Norway and a bar click on Kenya at
  once, both charts show Norway's rows only; the bar click on Kenya alone shows
  Kenya's row.
\<close>

theorem scatter_click_priority_witness:
  "map_sum id (\<lambda>figs. (map sp_animation_group (sc_data (fst figs)),
                        map bp_x (bar_data (snd figs))))
     (update_figures example_df
        (Some [\<lparr>customdata = Some [PyStr ''Norway'', PyStr ''Norway'']\<rparr>])
        (Some [\<lparr>customdata = Some [PyStr ''Kenya'', PyStr ''Kenya'']\<rparr>]))
   = Inr ([PyStr ''Norway'', PyStr ''Norway''], [PyStr ''Norway''])
 \<and> map_sum id (\<lambda>figs. (map sp_animation_group (sc_data (fst figs)),
                        map bp_x (bar_data (snd figs))))
     (update_figures example_df None
        (Some [\<lparr>customdata = Some [PyStr ''Kenya'', PyStr ''Kenya'']\<rparr>]))
   = Inr ([PyStr ''Kenya''], [PyStr ''Kenya''])"
proof -
  note c = scatter_click_priority
    [of example_df "[\<lparr>customdata = Some [PyStr ''Norway'', PyStr ''Norway'']\<rparr>]"
      "Some [\<lparr>customdata = Some [PyStr ''Kenya'', PyStr ''Kenya'']\<rparr>]"]
  note b = scatter_click_priority
    [of example_df "[\<lparr>customdata = Some [PyStr ''Kenya'', PyStr ''Kenya'']\<rparr>]" None]
  have norway: "render (filter_selected [PyStr ''Norway''] example_df) = Inr figs \<Longrightarrow>
      map sp_animation_group (sc_data (fst figs)) = [PyStr ''Norway'', PyStr ''Norway'']
      \<and> map bp_x (bar_data (snd figs)) = [PyStr ''Norway'']" for figs
    by (simp add: render_def px_scatter_def px_column_def water_df_def filter_selected_def
          mask_rows_def isin_def example_locate Let_def bind_err_Inr_iff,
        auto simp add: example_df_def px_bar_def sort_values_desc_def head_def cell_def
          end_year_def)
  have kenya: "render (filter_selected [PyStr ''Kenya''] example_df) = Inr figs \<Longrightarrow>
      map sp_animation_group (sc_data (fst figs)) = [PyStr ''Kenya'']
      \<and> map bp_x (bar_data (snd figs)) = [PyStr ''Kenya'']" for figs
    by (simp add: render_def px_scatter_def px_column_def water_df_def filter_selected_def
          mask_rows_def isin_def example_locate Let_def bind_err_Inr_iff,
        auto simp add: example_df_def px_bar_def sort_values_desc_def head_def cell_def
          end_year_def)
  have ok: "\<exists>figs. render (filter_selected sel example_df) = Inr figs" for sel
    by (simp add: render_def px_scatter_def px_column_def water_df_def filter_selected_def
          mask_rows_def example_locate Let_def, simp add: example_df_def isin_def)
  from ok [of "[PyStr ''Norway'']"] obtain fn where
    fn: "render (filter_selected [PyStr ''Norway''] example_df) = Inr fn" by blast
  from ok [of "[PyStr ''Kenya'']"] obtain fk where
    fk: "render (filter_selected [PyStr ''Kenya''] example_df) = Inr fk" by blast
  from c fn norway [OF fn] b fk kenya [OF fk] show ?thesis
    by (simp add: point_code_def)
qed

text \<open>
  C6 (as amended). Missing values are not dropped. When the table has the
  clean-water column, the frame handed to the bar chart has exactly
  \<open>min 15 n\<close> rows, where \<open>n\<close> counts the rows of \<open>end_year\<close>, with or without a
  value; its values are in non-increasing order with the missing ones last; the number
  of its rows that have a value is \<open>min 15 m\<close>, where \<open>m\<close> counts the rows of
  \<open>end_year\<close> that have one; and the chart's data are these rows.
\<close>

theorem water_df_rows:
  assumes "locate (columns dff) water_label = Inr iw"
  shows "\<exists>wdf. water_df dff = Inr wdf
     \<and> length wdf = min 15 (length (filter (\<lambda>r. Year r = end_year) (rows dff)))
     \<and> sorted_wrt desc_na_last (map w_water wdf)
     \<and> length (filter (\<lambda>r. w_water r \<noteq> None) wdf) =
         min 15 (length (filter (\<lambda>r. Year r = end_year \<and> cell iw r \<noteq> None) (rows dff)))
     \<and> map bp_y (bar_data (px_bar wdf)) = map w_water wdf"
proof -
  let ?latest = "filter (\<lambda>r. Year r = end_year) (rows dff)"
  let ?proj = "\<lambda>r. \<lparr>w_country_name = country_name r, w_water = cell iw r, w_iso2 = iso2 r\<rparr>"
  define wdf where "wdf = head 15 (sort_values_desc w_water (map ?proj ?latest))"
  have eq: "water_df dff = Inr wdf"
    using assms by (simp add: water_df_def Let_def wdf_def)
  have len: "length wdf = min 15 (length ?latest)"
    by (simp add: wdf_def head_def length_sort_values_desc min.commute)
  have srt: "sorted_wrt desc_na_last (map w_water wdf)"
    unfolding wdf_def head_def take_map [symmetric]
    by (rule sorted_wrt_take) (rule sorted_sort_values_desc)
  have "filter (\<lambda>r. w_water r \<noteq> None) (map ?proj ?latest) =
        map ?proj (filter (\<lambda>r. Year r = end_year \<and> cell iw r \<noteq> None) (rows dff))"
    by (simp add: filter_map comp_def conj_commute)
  then have cnt: "length (filter (\<lambda>r. w_water r \<noteq> None) wdf) =
      min 15 (length (filter (\<lambda>r. Year r = end_year \<and> cell iw r \<noteq> None) (rows dff)))"
    unfolding wdf_def head_def present_sort_values_desc by (simp add: min.commute)
  have bar: "map bp_y (bar_data (px_bar wdf)) = map w_water wdf"
    by (simp add: px_bar_def comp_def)
  from eq len srt cnt bar show ?thesis
    by (intro exI [of _ wdf] conjI)
qed

theorem water_df_rows_witness:
  "locate (columns example_df) water_label = Inr 2
 \<and> (\<exists>wdf. water_df example_df = Inr wdf
     \<and> length wdf = 2
     \<and> sorted_wrt desc_na_last (map w_water wdf)
     \<and> length (filter (\<lambda>r. w_water r \<noteq> None) wdf) = 1)"
proof -
  from water_df_rows [OF example_locate(3)] obtain wdf where
    eq: "water_df example_df = Inr wdf" and
    len: "length wdf = min 15 (length (filter (\<lambda>r. Year r = end_year) (rows example_df)))" and
    srt: "sorted_wrt desc_na_last (map w_water wdf)" and
    cnt: "length (filter (\<lambda>r. w_water r \<noteq> None) wdf) =
         min 15 (length (filter (\<lambda>r. Year r = end_year \<and> cell 2 r \<noteq> None)
           (rows example_df)))"
    by (elim exE conjE) (rule that, assumption+)
  from len have len': "length wdf = 2"
    by (simp add: example_df_def end_year_def)
  from cnt have cnt': "length (filter (\<lambda>r. w_water r \<noteq> None) wdf) = 1"
    by (simp add: example_df_def end_year_def cell_def)
  from example_locate(3) eq len' srt cnt' show ?thesis
    by (intro conjI exI [of _ wdf])
qed

text \<open>
  C6 as stated fails. In the example table two countries have a row for 2020 and only
  Norway has a clean-water value there: the specification's count is 1, yet the bar
  chart receives two rows, Norway's and, after it, Kenya's with its missing value.
\<close>

theorem bar_row_count_counterexample:
  "water_df example_df =
     Inr [\<lparr>w_country_name = PyStr ''Norway'', w_water = Some 99, w_iso2 = PyStr ''Norway''\<rparr>,
          \<lparr>w_country_name = PyStr ''Kenya'', w_water = None, w_iso2 = PyStr ''Kenya''\<rparr>]
 \<and> length (bar_data (px_bar
     [\<lparr>w_country_name = PyStr ''Norway'', w_water = Some 99, w_iso2 = PyStr ''Norway''\<rparr>,
      \<lparr>w_country_name = PyStr ''Kenya'', w_water = None, w_iso2 = PyStr ''Kenya''\<rparr>])) = 2
 \<and> min 15 (spec_countries_with_water example_df) = 1"
  by (simp add: water_df_def spec_countries_with_water_def example_locate px_bar_def Let_def,
      simp add: sort_values_desc_def head_def cell_def end_year_def example_df_def)

text \<open>
  C8 (as amended). An empty selection means the full table. Whenever the selection
  read from the payloads is empty (no payload at all, or a points list that is empty)
  the callback returns the charts of the unfiltered table, which are those of the
  initial call without payloads.
\<close>

theorem empty_selection_full_table:
  assumes "extract_selected click_scatter click_bar = Inr []"
  shows "update_figures df click_scatter click_bar = render df
       \<and> update_figures df click_scatter click_bar = update_figures df None None"
  using assms by (simp add: update_figures_def filter_selected_def extract_selected_def)

theorem empty_selection_full_table_witness:
  "extract_selected (Some []) None = Inr []
 \<and> update_figures example_df (Some []) None = update_figures example_df None None
 \<and> extract_selected None (Some []) = Inr []
 \<and> update_figures example_df None (Some []) = update_figures example_df None None"
proof -
  have h1: "extract_selected (Some []) None = Inr []"
    by (simp add: extract_selected_def)
  have h2: "extract_selected None (Some []) = Inr []"
    by (simp add: extract_selected_def)
  from empty_selection_full_table [OF h1, of example_df]
  have a: "update_figures example_df (Some []) None = update_figures example_df None None"
    by (elim conjE)
  from empty_selection_full_table [OF h2, of example_df]
  have b: "update_figures example_df None (Some []) = update_figures example_df None None"
    by (elim conjE)
  from h1 a h2 b show ?thesis
    by (intro conjI)
qed

text \<open>
  C8 as stated fails for a clicked point that carries no custom data. Without the
  \<open>customdata\<close> key the callback raises \<open>KeyError\<close>, with an empty \<open>customdata\<close>
  list it raises \<open>IndexError\<close>, and with \<open>None\<close> as the code the selection is the
  non-empty list \<open>[None]\<close>, which filters every row away; the initial call on the
  same table succeeds and plots all three rows.
\<close>

theorem no_custom_data_counterexample:
  "update_figures example_df (Some [\<lparr>customdata = None\<rparr>]) None = Inl KeyError
 \<and> update_figures example_df (Some [\<lparr>customdata = Some []\<rparr>]) None = Inl IndexError
 \<and> map_sum id (\<lambda>figs. length (sc_data (fst figs)))
     (update_figures example_df (Some [\<lparr>customdata = Some [PyNone, PyNone]\<rparr>]) None) = Inr 0
 \<and> map_sum id (\<lambda>figs. length (sc_data (fst figs)))
     (update_figures example_df None None) = Inr 3"
  by (simp add: update_figures_def extract_selected_def point_code_def filter_selected_def
      mask_rows_def isin_def render_def px_scatter_def px_column_def water_df_def
      example_locate Let_def, simp add: example_df_def)

end
